theory Spec2Isabelle
  imports Main
begin

section \<open>The command queue of the eSSL sync server (server.js)\<close>

text \<open>
  The server keeps two JavaScript Maps in memory: \<open>deviceCommands\<close>, from a device's
  serial number to the array of its queued command objects, and \<open>deviceSeq\<close>, from a
  serial number to the last command id handed out for it. Four kinds of request touch
  them: the operator's enqueue requests, the device's poll, and the device's
  acknowledgment in two encodings.

  Conventions of the embedding:
  \<^item> a JavaScript string is a \<open>string\<close>, read as its list of code units below 256;
  \<^item> a request field that may be absent is a \<open>string option\<close>, \<open>None\<close> being
    \<open>undefined\<close>: the fields of a query string and of the operator's requests are
    taken to be strings. The fields of the structured acknowledgment, whose body the
    JSON parser of line 68 reads as well, are values of any kind (\<open>jsvalue\<close> below);
  \<^item> command ids are JavaScript numbers that only ever hold the integers
    \<open>1, 2, 3, ...\<close>, on which \<open>last + 1\<close> is exact as long as the counter stays below
    \<open>2 ^ 53\<close>; they are modelled as \<open>nat\<close>;
  \<^item> \<open>new Date().toISOString()\<close> is an input \<open>now\<close> of the operation that reads the
    clock; the batch acknowledgment, which reads it once for each line that it
    acknowledges, takes a time for each of its lines;
  \<^item> the built-in conversion \<open>Number(...)\<close> of a string is a parameter \<open>Number\<close> of
    the two acknowledgment handlers: \<open>Number s = Some n\<close> when the JavaScript number is
    (strictly equal to) the natural number \<open>n\<close>, and \<open>None\<close> for every other result
    (\<open>NaN\<close>, a fraction, a negative or infinite number), which is \<open>===\<close> to no id.
    The theorems hold for every such conversion.
\<close>

subsection \<open>Data\<close>

datatype cmd_status = Pending | Sent | Done

text \<open>
  The command object of line 91, with the fields that later handlers add to it
  (\<open>sentAt\<close>, \<open>doneAt\<close>, \<open>deviceAck\<close>), absent until then.
\<close>

record cmd =
  id_cmd :: nat
  command :: string
  status :: cmd_status
  queuedAt :: string
  sentAt :: "string option"
  doneAt :: "string option"
  deviceAck :: "string option"

text \<open>
  The two Maps. The arrays hold command objects: \<open>'c\<close> is \<open>cmd\<close> where the
  objects are taken by value, and a reference where their identity matters
  (the last subsection).
\<close>

record 'c store =
  deviceCommands :: "string \<rightharpoonup> 'c list"
  deviceSeq :: "string \<rightharpoonup> nat"

definition init :: "'c store" where
  "init = \<lparr>deviceCommands = Map.empty, deviceSeq = Map.empty\<rparr>"

text \<open>
  What a handler sends back. \<open>ServerError\<close> is the answer (status 500) of the
  framework's error handler when the handler has thrown.
\<close>

datatype response =
    Text string
  | BadRequest string
  | Queued cmd
  | CommandList string "cmd list"
  | ServerError

text \<open>
  A field of the structured acknowledgment. The JSON body parser of line 68 is global,
  so a field of the body need not be a string: it may be a number, a boolean,
  \<open>null\<close>, an array or an object (and a field of the query string may be an array
  or an object). Such a value is given by what the handler observes of it: whether it
  is truthy; the string that a template literal makes of it, \<open>None\<close> when the
  conversion throws a \<open>TypeError\<close> (an object whose \<open>toString\<close> is not callable,
  as in \<open>{"toString": null}\<close>); and the result of \<open>Number(...)\<close> on it, \<open>None\<close>
  when that throws, \<open>Some None\<close> for a number that is no natural number.
\<close>

datatype jsvalue =
    Undefined
  | Str string
  | Value bool "string option" "nat option option"

text \<open>
  What an acknowledgment handler does with one acknowledgment, as its console message
  tells: the line was not recognised, no command has the id, or the command was
  acknowledged. In the last case the entry carries the command object as the handler
  leaves it (after the three assignments to \<open>status\<close>, \<open>doneAt\<close> and \<open>deviceAck\<close>),
  which is then unlinked from the array.
\<close>

datatype ack_event =
    Unrecognized string
  | UnknownId "nat option"
  | Acked cmd

subsection \<open>JavaScript helpers\<close>

definition LF :: char where
  "LF = CHR 0x0A"

definition CR :: char where
  "CR = CHR 0x0D"

text \<open>
  \<open>!x\<close> on a field: an absent field and the empty string are falsy. \<open>x || ""\<close> is
  the field when it is a non-empty string, and the empty string otherwise.
\<close>

definition falsy :: "string option \<Rightarrow> bool" where
  "falsy v = (case v of None \<Rightarrow> True | Some x \<Rightarrow> x = [])"

definition or_empty :: "string option \<Rightarrow> string" where
  "or_empty v = (case v of None \<Rightarrow> [] | Some x \<Rightarrow> x)"

text \<open>The same on a value of any kind: \<open>!v\<close> and \<open>a || b\<close>.\<close>

definition falsy_value :: "jsvalue \<Rightarrow> bool" where
  "falsy_value v = (case v of Undefined \<Rightarrow> True | Str x \<Rightarrow> x = [] | Value t p n \<Rightarrow> t = False)"

definition or_value :: "jsvalue \<Rightarrow> jsvalue \<Rightarrow> jsvalue" where
  "or_value a b = (if falsy_value a then b else a)"

text \<open>
  The conversion of a value inside a template literal (\<open>None\<close>: it throws), and
  \<open>Number(v)\<close>, which on a string is the parameter \<open>Number\<close>.
\<close>

definition to_string :: "jsvalue \<Rightarrow> string option" where
  "to_string v = (case v of Undefined \<Rightarrow> Some ''undefined'' | Str x \<Rightarrow> Some x | Value t p n \<Rightarrow> p)"

definition printable :: "jsvalue \<Rightarrow> bool" where
  "printable v = (to_string v \<noteq> None)"

definition to_number :: "(string \<Rightarrow> nat option) \<Rightarrow> jsvalue \<Rightarrow> nat option option" where
  "to_number Number v =
     (case v of Undefined \<Rightarrow> Some None | Str x \<Rightarrow> Some (Number x) | Value t p n \<Rightarrow> n)"

text \<open>\<open>Array.prototype.join\<close>.\<close>

fun join :: "string \<Rightarrow> string list \<Rightarrow> string" where
  "join sep [] = []"
| "join sep [x] = x"
| "join sep (x # y # ys) = x @ sep @ join sep (y # ys)"

text \<open>
  \<open>String.prototype.split\<close> with a one-character separator: never an empty array,
  the empty string gives one empty field.
\<close>

fun cons_first :: "char \<Rightarrow> string list \<Rightarrow> string list" where
  "cons_first c [] = [[c]]"
| "cons_first c (p # ps) = (c # p) # ps"

fun split :: "char \<Rightarrow> string \<Rightarrow> string list" where
  "split d [] = [[]]"
| "split d (c # cs) = (if c = d then [] # split d cs else cons_first c (split d cs))"

text \<open>\<open>split(/\r?\n/)\<close>: a line feed, with the carriage return right before it if any.\<close>

fun split_lines :: "string \<Rightarrow> string list" where
  "split_lines [] = [[]]"
| "split_lines [c] = (if c = LF then [[], []] else [[c]])"
| "split_lines (c # d # cs) =
     (if c = LF then [] # split_lines (d # cs)
      else if c = CR \<and> d = LF then [] # split_lines cs
      else cons_first c (split_lines (d # cs)))"

text \<open>
  \<open>String.prototype.trim\<close>: the white space and line terminators among the code units
  below 256 are tab, line feed, vertical tab, form feed, carriage return, space and
  the no-break space.
\<close>

definition is_space :: "char \<Rightarrow> bool" where
  "is_space c = (c \<in> {CHR 0x09, CHR 0x0A, CHR 0x0B, CHR 0x0C, CHR 0x0D, CHR 0x20, CHR 0xA0})"

definition trim :: "string \<Rightarrow> string" where
  "trim s = rev (dropWhile is_space (rev (dropWhile is_space s)))"

text \<open>\<open>Array.prototype.findIndex\<close>: the first index, \<open>None\<close> for \<open>-1\<close>.\<close>

fun findIndex :: "('a \<Rightarrow> bool) \<Rightarrow> 'a list \<Rightarrow> nat option" where
  "findIndex P [] = None"
| "findIndex P (x # xs) = (if P x then Some 0 else map_option Suc (findIndex P xs))"

text \<open>\<open>arr.splice(idx, 1)\<close>.\<close>

definition splice1 :: "nat \<Rightarrow> 'a list \<Rightarrow> 'a list" where
  "splice1 idx arr = take idx arr @ drop (Suc idx) arr"

text \<open>
  The decimal digits of a number, as a template literal prints an id (JavaScript
  prints an integer below \<open>10 ^ 21\<close> in full).
\<close>

definition digit :: "nat \<Rightarrow> char" where
  "digit n = ''0123456789'' ! n"

fun show_nat :: "nat \<Rightarrow> string" where
  "show_nat n = (if n < 10 then [digit n] else show_nat (n div 10) @ [digit (n mod 10)])"

declare show_nat.simps [simp del]

subsection \<open>The queue\<close>

text \<open>Line 81: \<open>deviceSeq.get(sn) || 0\<close>.\<close>

definition last_id :: "'c store \<Rightarrow> string \<Rightarrow> nat" where
  "last_id s sn = (case deviceSeq s sn of None \<Rightarrow> 0 | Some n \<Rightarrow> n)"

text \<open>\<open>nextCommandIdFor\<close>, lines 80 to 85.\<close>

definition nextCommandIdFor :: "string \<Rightarrow> 'c store \<Rightarrow> nat \<times> 'c store" where
  "nextCommandIdFor sn s =
     (let next = last_id s sn + 1
      in (next, s\<lparr>deviceSeq := (deviceSeq s)(sn \<mapsto> next)\<rparr>))"

text \<open>\<open>deviceCommands.get(sn) || []\<close>: an array is never falsy.\<close>

definition get_or_empty :: "'c store \<Rightarrow> string \<Rightarrow> 'c list" where
  "get_or_empty s sn = (case deviceCommands s sn of None \<Rightarrow> [] | Some arr \<Rightarrow> arr)"

text \<open>The object literal of line 91.\<close>

definition new_command :: "nat \<Rightarrow> string \<Rightarrow> string \<Rightarrow> cmd" where
  "new_command i commandText now =
     \<lparr>id_cmd = i, command = commandText, status = Pending, queuedAt = now,
      sentAt = None, doneAt = None, deviceAck = None\<rparr>"

text \<open>\<open>queueCommand\<close>, lines 88 to 97. It returns the command it has pushed.\<close>

definition queueCommand :: "string \<Rightarrow> string \<Rightarrow> string \<Rightarrow> cmd store \<Rightarrow> cmd \<times> cmd store" where
  "queueCommand sn commandText now s =
     (let (i, s1) = nextCommandIdFor sn s;
          c = new_command i commandText now;
          arr = get_or_empty s1 sn @ [c]
      in (c, s1\<lparr>deviceCommands := (deviceCommands s1)(sn \<mapsto> arr)\<rparr>))"

text \<open>
  Lines 238 and 239, and again 267 and 268: the device's entry is deleted when its
  array has become empty, and set to the array otherwise.
\<close>

definition update_queue :: "string \<Rightarrow> 'c list \<Rightarrow> 'c store \<Rightarrow> 'c store" where
  "update_queue SN arr s =
     s\<lparr>deviceCommands :=
         (if length arr = 0 then (deviceCommands s)(SN := None)
          else (deviceCommands s)(SN \<mapsto> arr))\<rparr>"

subsection \<open>The operator's requests\<close>

text \<open>
  \<open>POST /queue-command\<close> (lines 278 to 286), \<open>GET /request-users\<close> (288 to 293),
  \<open>GET /request-attendance\<close> (295 to 300) and \<open>GET /commands/:sn\<close> (303 to 307).
  The enqueue handlers pass \<open>String(SN)\<close> and \<open>String(command)\<close> on, so a field
  is given here as the string that it is converted to (a field that cannot be
  converted makes the handler throw before it has changed anything).
  \<open>res.json\<close> serialises the command at once.
\<close>

definition queue_command :: "string option \<Rightarrow> string option \<Rightarrow> string \<Rightarrow> cmd store \<Rightarrow> response \<times> cmd store" where
  "queue_command bSN bcommand now s =
     (if falsy bSN \<or> falsy bcommand then (BadRequest ''SN and command are required'', s)
      else let (c, s') = queueCommand (or_empty bSN) (or_empty bcommand) now s
           in (Queued c, s'))"

definition request_users :: "string option \<Rightarrow> string \<Rightarrow> cmd store \<Rightarrow> response \<times> cmd store" where
  "request_users qSN now s =
     (if falsy qSN then (BadRequest ''SN is required'', s)
      else let (c, s') = queueCommand (or_empty qSN) ''CHECK'' now s
           in (Queued c, s'))"

definition request_attendance :: "string option \<Rightarrow> string \<Rightarrow> cmd store \<Rightarrow> response \<times> cmd store" where
  "request_attendance qSN now s =
     (if falsy qSN then (BadRequest ''SN is required'', s)
      else let (c, s') = queueCommand (or_empty qSN) ''DATA QUERY ATTLOG'' now s
           in (Queued c, s'))"

definition commands_sn :: "string \<Rightarrow> cmd store \<Rightarrow> response \<times> cmd store" where
  "commands_sn sn s = (CommandList sn (get_or_empty s sn), s)"

subsection \<open>The poll\<close>

text \<open>
  \<open>GET /iclock/getrequest.aspx\<close>, lines 157 to 190. \<open>command_line\<close> is the
  template of line 176. \<open>pending\<close> holds the very objects of \<open>all\<close> whose status
  is pending, so the \<open>forEach\<close> of line 179 changes those elements of \<open>all\<close>
  (\<open>mark_sent\<close>), which is the array the Map already holds.
\<close>

definition command_line :: "cmd \<Rightarrow> string" where
  "command_line c = ''C:'' @ show_nat (id_cmd c) @ '':'' @ command c"

definition mark_sent :: "string \<Rightarrow> cmd \<Rightarrow> cmd" where
  "mark_sent now c = (if status c = Pending then c\<lparr>status := Sent, sentAt := Some now\<rparr> else c)"

definition getrequest :: "string option \<Rightarrow> string \<Rightarrow> cmd store \<Rightarrow> response \<times> cmd store" where
  "getrequest qSN now s =
     (let SN = or_empty qSN in
      if SN = [] then (Text ''OK'', s)
      else
        let all = get_or_empty s SN;
            pending = filter (\<lambda>c. status c = Pending) all
        in if length pending = 0 then (Text ''OK'', s)
           else
             let lines = map command_line pending;
                 all' = map (mark_sent now) all;
                 responseText = join [LF] lines @ [LF]
             in (Text responseText, s\<lparr>deviceCommands := (deviceCommands s)(SN \<mapsto> all')\<rparr>))"

subsection \<open>The acknowledgment, batch form\<close>

text \<open>
  The test of line 212 on the fields of a line. \<open>split\<close> never gives an empty
  array, so \<open>parts[0]\<close> exists.
\<close>

definition unrecognized :: "string list \<Rightarrow> bool" where
  "unrecognized parts = (length parts < 3 \<or> hd parts \<noteq> ''C'')"

text \<open>
  The body of the \<open>forEach\<close> of lines 209 to 235, on one line of the batch: the array
  after it, and what was done.
\<close>

definition ack_line :: "(string \<Rightarrow> nat option) \<Rightarrow> string \<Rightarrow> cmd list \<Rightarrow> string \<Rightarrow> cmd list \<times> ack_event" where
  "ack_line Number now arr line =
     (let parts = split CHR '':'' line in
      if unrecognized parts then (arr, Unrecognized line)
      else
        let idn = Number (parts ! 1);
            status' = join '':'' (drop 2 parts)
        in case findIndex (\<lambda>c. Some (id_cmd c) = idn) arr of
             None \<Rightarrow> (arr, UnknownId idn)
           | Some idx \<Rightarrow>
               let cmd' = (arr ! idx)\<lparr>status := Done, doneAt := Some now,
                                       deviceAck := Some status'\<rparr>
               in (splice1 idx arr, Acked cmd'))"

text \<open>
  The \<open>forEach\<close> over the lines. Line 227 reads the clock anew for each line that it
  acknowledges, so every line comes with the time at which it is handled.
\<close>

fun ack_lines :: "(string \<Rightarrow> nat option) \<Rightarrow> cmd list \<Rightarrow> (string \<times> string) list \<Rightarrow> cmd list \<times> ack_event list" where
  "ack_lines Number arr [] = (arr, [])"
| "ack_lines Number arr ((now, line) # rest) =
     (let (arr1, e) = ack_line Number now arr line;
          (arr2, es) = ack_lines Number arr1 rest
      in (arr2, e # es))"

text \<open>The lines of a request with their times: \<open>clock k\<close> is the time at line \<open>k\<close>.\<close>

definition timed :: "(nat \<Rightarrow> string) \<Rightarrow> string list \<Rightarrow> (string \<times> string) list" where
  "timed clock lines = zip (map clock [0 ..< length lines]) lines"

text \<open>Lines 203 to 206: the lines of \<open>info\<close>, trimmed, the empty ones dropped.\<close>

definition info_lines :: "string \<Rightarrow> string list" where
  "info_lines infoRaw = filter (\<lambda>l. l \<noteq> []) (map trim (split_lines infoRaw))"

text \<open>\<open>GET /iclock/devicecmd\<close>, lines 193 to 243.\<close>

definition devicecmd :: "(string \<Rightarrow> nat option) \<Rightarrow> string option \<Rightarrow> string option \<Rightarrow> (nat \<Rightarrow> string) \<Rightarrow> cmd store \<Rightarrow> response \<times> cmd store \<times> ack_event list" where
  "devicecmd Number qSN qinfo clock s =
     (let SN = or_empty qSN;
          infoRaw = or_empty qinfo
      in if SN = [] \<or> infoRaw = [] then (Text ''OK'', s, [])
         else
           let (arr, events) =
                 ack_lines Number (get_or_empty s SN) (timed clock (info_lines infoRaw))
           in (Text ''OK'', update_queue SN arr s, events))"

subsection \<open>The acknowledgment, structured form\<close>

text \<open>The fields of the request that the handler reads.\<close>

record ack_form =
  query_SN :: jsvalue
  body_SN :: jsvalue
  ID :: jsvalue
  Return :: jsvalue
  CMD :: jsvalue

text \<open>Line 249: \<open>req.query.SN || req.body.SN || ""\<close>.\<close>

definition form_SN :: "ack_form \<Rightarrow> jsvalue" where
  "form_SN req = or_value (query_SN req) (or_value (body_SN req) (Str []))"

text \<open>
  The branch of lines 269 to 271, no command having the id: the template of line 270
  converts \<open>ID\<close>, \<open>CMD\<close> and \<open>SN\<close>, and throws if one of them cannot be
  converted.
\<close>

definition unknown_ack :: "ack_form \<Rightarrow> nat option \<Rightarrow> cmd store \<Rightarrow> response \<times> cmd store \<times> ack_event list" where
  "unknown_ack req cmdId s =
     (if list_all printable [ID req, CMD req, form_SN req] then (Text ''OK'', s, [UnknownId cmdId])
      else (ServerError, s, []))"

text \<open>
  \<open>POST /iclock/devicecmd.aspx\<close>, lines 245 to 275. The keys of \<open>deviceCommands\<close>
  are strings, so \<open>get\<close> finds nothing under an \<open>SN\<close> that is not a string.
  \<open>Number(ID)\<close> on line 257 may throw, before anything is changed. When a command
  has the id, lines 260 to 262 assign to the object in the array that the Map holds;
  the template of line 263 then converts \<open>ID\<close>, \<open>CMD\<close>, \<open>SN\<close> and \<open>Return\<close>,
  and if that throws, the \<open>splice\<close> of line 266 is not reached: the store keeps
  the array with the command as assigned.
\<close>

definition devicecmd_aspx :: "(string \<Rightarrow> nat option) \<Rightarrow> ack_form \<Rightarrow> string \<Rightarrow> cmd store \<Rightarrow> response \<times> cmd store \<times> ack_event list" where
  "devicecmd_aspx Number req now s =
     (let SN = form_SN req
      in if falsy_value SN \<or> falsy_value (ID req) \<or> falsy_value (CMD req) then (Text ''OK'', s, [])
         else
           case SN of
             Str sn \<Rightarrow>
               (let arr = get_or_empty s sn
                in case to_number Number (ID req) of
                     None \<Rightarrow> (ServerError, s, [])
                   | Some cmdId \<Rightarrow>
                       (case findIndex (\<lambda>c. Some (id_cmd c) = cmdId) arr of
                          Some idx \<Rightarrow>
                            let acked = (arr ! idx)\<lparr>status := Done, doneAt := Some now,
                                  deviceAck := Some (if Return req = Str ''0'' then ''OK'' else ''ERR'')\<rparr>
                            in if list_all printable [ID req, CMD req, SN, Return req]
                               then (Text ''OK'', update_queue sn (splice1 idx arr) s, [Acked acked])
                               else (ServerError,
                                     s\<lparr>deviceCommands := (deviceCommands s)(sn \<mapsto> arr[idx := acked])\<rparr>,
                                     [])
                        | None \<Rightarrow> unknown_ack req cmdId s))
           | other \<Rightarrow>
               (case to_number Number (ID req) of
                  None \<Rightarrow> (ServerError, s, [])
                | Some cmdId \<Rightarrow> unknown_ack req cmdId s))"

subsection \<open>Sequences of requests\<close>

text \<open>
  The requests that reach the queue, each with the clock of its handling:
  \<open>clock 0\<close> is the time that a handler reads when it reads the clock once, and for
  a batch \<open>clock k\<close> is the time at its line \<open>k\<close>. The other routes of the server
  (attendance and user upload, the data viewer, the fallback) read and write neither
  Map.
\<close>

datatype request =
    QueueCommand "string option" "string option"
  | RequestUsers "string option"
  | RequestAttendance "string option"
  | CommandsOf string
  | GetRequest "string option"
  | DeviceCmd "string option" "string option"
  | DeviceCmdAspx ack_form

fun serve :: "(string \<Rightarrow> nat option) \<Rightarrow> request \<Rightarrow> (nat \<Rightarrow> string) \<Rightarrow> cmd store \<Rightarrow> response \<times> cmd store" where
  "serve Number (QueueCommand bSN bcommand) clock s = queue_command bSN bcommand (clock 0) s"
| "serve Number (RequestUsers qSN) clock s = request_users qSN (clock 0) s"
| "serve Number (RequestAttendance qSN) clock s = request_attendance qSN (clock 0) s"
| "serve Number (CommandsOf sn) clock s = commands_sn sn s"
| "serve Number (GetRequest qSN) clock s = getrequest qSN (clock 0) s"
| "serve Number (DeviceCmd qSN qinfo) clock s =
     (let (r, s', events) = devicecmd Number qSN qinfo clock s in (r, s'))"
| "serve Number (DeviceCmdAspx req) clock s =
     (let (r, s', events) = devicecmd_aspx Number req (clock 0) s in (r, s'))"

fun run :: "(string \<Rightarrow> nat option) \<Rightarrow> cmd store \<Rightarrow> (request \<times> (nat \<Rightarrow> string)) list \<Rightarrow> response list \<times> cmd store" where
  "run Number s [] = ([], s)"
| "run Number s ((req, clock) # reqs) =
     (let (r, s1) = serve Number req clock s;
          (rs, s2) = run Number s1 reqs
      in (r # rs, s2))"

text \<open>
  The ids that a run has handed out for a device, in order: the id of the command in
  each enqueue response for that device.
\<close>

fun queued_for :: "string \<Rightarrow> request \<times> response \<Rightarrow> nat list" where
  "queued_for sn (QueueCommand bSN bcommand, Queued c) = (if or_empty bSN = sn then [id_cmd c] else [])"
| "queued_for sn (RequestUsers qSN, Queued c) = (if or_empty qSN = sn then [id_cmd c] else [])"
| "queued_for sn (RequestAttendance qSN, Queued c) = (if or_empty qSN = sn then [id_cmd c] else [])"
| "queued_for sn other = []"

definition issued :: "string \<Rightarrow> (request \<times> (nat \<Rightarrow> string)) list \<Rightarrow> response list \<Rightarrow> nat list" where
  "issued sn reqs resps = concat (map (queued_for sn) (zip (map fst reqs) resps))"

subsection \<open>Notions used in the statements\<close>

text \<open>A command that is pending or sent.\<close>

definition live :: "cmd \<Rightarrow> bool" where
  "live c = (status c = Pending \<or> status c = Sent)"



text \<open>
  \<open>deviceCommands.get(v) || []\<close> for a key of any kind, and a structured request
  none of whose conversions throws: \<open>Number(ID)\<close> gives a number, and the values
  that the templates of lines 263 and 270 print can be printed. A request whose fields
  are all strings or absent is one.
\<close>

definition lookup :: "cmd store \<Rightarrow> jsvalue \<Rightarrow> cmd list" where
  "lookup s v = (case v of Str sn \<Rightarrow> get_or_empty s sn | other \<Rightarrow> [])"




fun is_Unrecognized :: "ack_event \<Rightarrow> bool" where
  "is_Unrecognized (Unrecognized l) = True"
| "is_Unrecognized e = False"

text \<open>
  Two clocks for the concrete evaluations below: one that stands still, and one that
  shows \<open>t0\<close>, \<open>t1\<close>, \<open>t2\<close>, ... at the lines 0, 1, 2, ... of a batch.
\<close>

definition always :: "string \<Rightarrow> nat \<Rightarrow> string" where
  "always t k = t"

definition ticking :: "nat \<Rightarrow> string" where
  "ticking k = ''t'' @ show_nat k"

text \<open>
  A conversion for the concrete evaluations below: on a non-empty string of decimal
  digits it is JavaScript's \<open>Number\<close>. (JavaScript's conversion also accepts white
  space around the number, a sign, a fraction, an exponent and other radixes; the
  theorems do not depend on this instance.)
\<close>

definition Number_digits :: "string \<Rightarrow> nat option" where
  "Number_digits s =
     (if s \<noteq> [] \<and> list_all (\<lambda>c. 48 \<le> (of_char c :: nat) \<and> (of_char c :: nat) \<le> 57) s
      then Some (foldl (\<lambda>n c. 10 * n + (of_char c - 48)) 0 s) else None)"

subsection \<open>Command objects by reference\<close>

text \<open>
  In the definitions above an array holds its command objects by value. That loses
  nothing as long as no reference to a command object leaves the handlers; the one
  place where it matters is the result of \<open>queueCommand\<close>, which line 96 returns as
  the object itself. Here the objects live in an object store, new objects at the
  next unused address, and the arrays hold addresses.
\<close>

type_synonym ref = nat

record heap =
  objects :: "ref \<rightharpoonup> cmd"
  unused :: ref

definition new_object :: "cmd \<Rightarrow> heap \<Rightarrow> ref \<times> heap" where
  "new_object c h = (unused h, h\<lparr>objects := (objects h)(unused h \<mapsto> c), unused := Suc (unused h)\<rparr>)"

definition queueCommand_ref :: "string \<Rightarrow> string \<Rightarrow> string \<Rightarrow> heap \<times> ref store \<Rightarrow> ref \<times> heap \<times> ref store" where
  "queueCommand_ref sn commandText now hs =
     (let (i, s1) = nextCommandIdFor sn (snd hs);
          (c, h1) = new_object (new_command i commandText now) (fst hs);
          arr = get_or_empty s1 sn @ [c]
      in (c, h1, s1\<lparr>deviceCommands := (deviceCommands s1)(sn \<mapsto> arr)\<rparr>))"

text \<open>What a caller holding a reference can do with it: \<open>r.command = v\<close>.\<close>

definition assign_command :: "ref \<Rightarrow> string \<Rightarrow> heap \<Rightarrow> heap" where
  "assign_command r v h =
     (case objects h r of None \<Rightarrow> h
      | Some c \<Rightarrow> h\<lparr>objects := (objects h)(r \<mapsto> c\<lparr>command := v\<rparr>)\<rparr>)"

text \<open>The commands that a device's queue holds, read through the references.\<close>

definition queue_of :: "heap \<times> ref store \<Rightarrow> string \<Rightarrow> cmd list" where
  "queue_of hs sn = List.map_filter (objects (fst hs)) (get_or_empty (snd hs) sn)"

definition empty_heap :: heap where
  "empty_heap = \<lparr>objects = Map.empty, unused = 0\<rparr>"

text \<open>Every address held by a queue is in use.\<close>

definition allocated :: "heap \<times> ref store \<Rightarrow> string \<Rightarrow> bool" where
  "allocated hs sn = list_all (\<lambda>r. r < unused (fst hs)) (get_or_empty (snd hs) sn)"

text \<open>The store with every array read through its references.\<close>

definition by_value :: "heap \<times> ref store \<Rightarrow> cmd store" where
  "by_value hs =
     \<lparr>deviceCommands = (\<lambda>sn. map_option (List.map_filter (objects (fst hs))) (deviceCommands (snd hs) sn)),
      deviceSeq = deviceSeq (snd hs)\<rparr>"

section \<open>Facts about the helpers\<close>

subsection \<open>Splitting and joining\<close>

lemma split_not_Nil: "split d s \<noteq> []"
  by (induction s) (auto split: list.splits, metis cons_first.elims list.distinct(1))

lemma split_append: "d \<notin> set a \<Longrightarrow> split d (a @ d # r) = a # split d r"
  by (induction a) auto

lemma join_cons: "ps \<noteq> [] \<Longrightarrow> join sep (p # ps) = p @ sep @ join sep ps"
  by (cases ps) auto

lemma join_split: "join [d] (split d s) = s"
proof (induction s)
  case Nil show ?case by simp
next
  case (Cons c cs)
  show ?case
  proof (cases "c = d")
    case True
    then show ?thesis using Cons split_not_Nil [of d cs] by (simp add: join_cons)
  next
    case False
    obtain p ps where e: "split d cs = p # ps" using split_not_Nil [of d cs] by (cases "split d cs") auto
    show ?thesis using False Cons e by (cases ps) auto
  qed
qed



lemma split_fields: "p \<in> set (split d s) \<Longrightarrow> d \<notin> set p"
proof (induction s arbitrary: p)
  case Nil then show ?case by simp
next
  case (Cons c cs)
  obtain q qs where e: "split d cs = q # qs" using split_not_Nil [of d cs] by (cases "split d cs") auto
  show ?case using Cons e by (auto split: if_splits)
qed

lemma split_shape:
  "CHR '':'' \<notin> set i \<Longrightarrow> split CHR '':'' (''C:'' @ i @ '':'' @ r) = ''C'' # i # split CHR '':'' r"
  using split_append [of "CHR '':''" i r] by simp

lemma length3: "\<not> length xs < 3 \<Longrightarrow> \<exists>a b c r. xs = a # b # c # r"
proof (cases xs)
  case Nil then show "\<not> length xs < 3 \<Longrightarrow> ?thesis" by simp
next
  case (Cons a ys)
  then show "\<not> length xs < 3 \<Longrightarrow> ?thesis"
    by (cases ys; cases "tl ys") auto
qed

lemma recognized_shape:
  assumes "\<not> unrecognized (split CHR '':'' l)"
  shows "\<exists>i r. l = ''C:'' @ i @ '':'' @ r \<and> CHR '':'' \<notin> set i"
proof -
  obtain p0 p1 p2 ps where e: "split CHR '':'' l = p0 # p1 # p2 # ps"
    using assms length3 [of "split CHR '':'' l"] by (auto simp: unrecognized_def)
  have p0: "p0 = ''C''" using assms e by (simp add: unrecognized_def)
  have "CHR '':'' \<notin> set p1" using split_fields [of p1 "CHR '':''" l] e by simp
  moreover have "l = ''C:'' @ p1 @ '':'' @ join '':'' (p2 # ps)"
    using join_split [of "CHR '':''" l] e p0 by simp
  ultimately show ?thesis by blast
qed



subsection \<open>Finding and removing an element\<close>


lemma findIndex_Some: "findIndex P xs = Some i \<Longrightarrow> i < length xs \<and> P (xs ! i) \<and> list_all (\<lambda>x. \<not> P x) (take i xs)"
  by (induction xs arbitrary: i) (auto split: if_splits)

lemma findIndex_ex: "list_ex P xs \<Longrightarrow> \<exists>i. findIndex P xs = Some i"
  by (induction xs) auto



lemma splice1_set: "set (splice1 i xs) \<subseteq> set xs"
  unfolding splice1_def using set_take_subset [of i xs] set_drop_subset [of "Suc i" xs] by auto




lemma list_all_splice1: "list_all P xs \<Longrightarrow> list_all P (splice1 i xs)"
  using splice1_set [of i xs] by (auto simp add: list_all_iff)




subsection \<open>The store\<close>

lemma get_or_empty_update_queue:
  "get_or_empty (update_queue SN arr s) sn = (if sn = SN then arr else get_or_empty s sn)"
  by (simp add: get_or_empty_def update_queue_def)




lemma queueCommand_eq:
  "queueCommand sn t now s =
    (\<lparr>id_cmd = last_id s sn + 1, command = t, status = Pending, queuedAt = now,
       sentAt = None, doneAt = None, deviceAck = None\<rparr>,
     \<lparr>deviceCommands = (deviceCommands s)(sn \<mapsto> get_or_empty s sn @
        [\<lparr>id_cmd = last_id s sn + 1, command = t, status = Pending, queuedAt = now,
       sentAt = None, doneAt = None, deviceAck = None\<rparr>]),
      deviceSeq = (deviceSeq s)(sn \<mapsto> last_id s sn + 1)\<rparr>)"
  by (simp add: queueCommand_def nextCommandIdFor_def new_command_def get_or_empty_def Let_def)

lemma queueCommand_last_id:
  "last_id (snd (queueCommand sn t now s)) sn' = (if sn' = sn then last_id s sn + 1 else last_id s sn')"
  by (simp add: queueCommand_eq) (simp add: last_id_def)

lemma queueCommand_queue:
  "get_or_empty (snd (queueCommand sn t now s)) sn' =
     (if sn' = sn then get_or_empty s sn @ [fst (queueCommand sn t now s)] else get_or_empty s sn')"
  by (simp add: queueCommand_eq) (simp add: get_or_empty_def)

lemma queueCommand_id: "id_cmd (fst (queueCommand sn t now s)) = last_id s sn + 1"
  by (simp add: queueCommand_eq)

lemma queueCommand_status: "status (fst (queueCommand sn t now s)) = Pending"
  by (simp add: queueCommand_eq)


subsection \<open>The poll\<close>

lemma getrequest_eq:
  "getrequest qSN now s =
    (if or_empty qSN = [] \<or> filter (\<lambda>c. status c = Pending) (get_or_empty s (or_empty qSN)) = []
     then (Text ''OK'', s)
     else (Text (join [LF] (map command_line
                  (filter (\<lambda>c. status c = Pending) (get_or_empty s (or_empty qSN)))) @ [LF]),
           s\<lparr>deviceCommands := (deviceCommands s)(or_empty qSN \<mapsto>
               map (mark_sent now)
                 (get_or_empty s (or_empty qSN)))\<rparr>))"
  by (simp add: getrequest_def Let_def)

lemma mark_sent_none:
  "filter (\<lambda>c. status c = Pending) xs = [] \<Longrightarrow>
     map (mark_sent now) xs = xs"
  by (induction xs) (auto simp add: mark_sent_def split: if_splits)


lemma mark_sent_live:
  "list_all live xs \<Longrightarrow>
   list_all live (map (mark_sent now) xs)"
  by (induction xs) (auto simp add: live_def mark_sent_def)



lemma getrequest_queue:
  "get_or_empty (snd (getrequest qSN now s)) sn =
     (if sn = or_empty qSN \<and> sn \<noteq> []
      then map (mark_sent now) (get_or_empty s sn)
      else get_or_empty s sn)"
proof (cases "or_empty qSN = [] \<or> filter (\<lambda>c. status c = Pending) (get_or_empty s (or_empty qSN)) = []")
  case True
  then show ?thesis using mark_sent_none [of "get_or_empty s (or_empty qSN)" now]
    by (auto simp add: getrequest_eq)
next
  case False
  then show ?thesis
    by (simp add: getrequest_eq) (simp add: get_or_empty_def)
qed

lemma getrequest_deviceSeq: "deviceSeq (snd (getrequest qSN now s)) = deviceSeq s"
  by (simp add: getrequest_eq)


subsection \<open>One line of a batch, and a batch\<close>

lemma ack_line_shape:
  assumes "CHR '':'' \<notin> set i"
  shows "ack_line Number now arr (''C:'' @ i @ '':'' @ r) =
    (case findIndex (\<lambda>c. Some (id_cmd c) = Number i) arr of
       None \<Rightarrow> (arr, UnknownId (Number i))
     | Some idx \<Rightarrow> (splice1 idx arr,
         Acked ((arr ! idx)\<lparr>status := Done, doneAt := Some now, deviceAck := Some r\<rparr>)))"
proof -
  have s: "split CHR '':'' (''C:'' @ i @ '':'' @ r) = ''C'' # i # split CHR '':'' r"
    using assms by (rule split_shape)
  have n: "split CHR '':'' r \<noteq> []" by (rule split_not_Nil)
  have j: "join '':'' (split CHR '':'' r) = r" by (rule join_split)
  show ?thesis
    unfolding ack_line_def s using n j
    by (cases "split CHR '':'' r") (simp_all add: Let_def unrecognized_def split: option.split)
qed

lemma ack_line_unrecognized:
  "unrecognized (split CHR '':'' l) \<Longrightarrow> ack_line Number now arr l = (arr, Unrecognized l)"
  by (simp add: ack_line_def)

lemma ack_line_recognized:
  "\<not> unrecognized (split CHR '':'' l) \<Longrightarrow> \<not> is_Unrecognized (snd (ack_line Number now arr l))"
  by (simp add: ack_line_def Let_def split: option.split)

lemma ack_lines_skip:
  "ack_lines Number arr (filter (\<lambda>tl. \<not> unrecognized (split CHR '':'' (snd tl))) tls) =
     (fst (ack_lines Number arr tls),
      filter (\<lambda>e. \<not> is_Unrecognized e) (snd (ack_lines Number arr tls)))"
proof (induction tls arbitrary: arr)
  case Nil show ?case by simp
next
  case (Cons tl tls)
  obtain now l where tl: "tl = (now, l)" by (cases tl)
  show ?case
  proof (cases "unrecognized (split CHR '':'' l)")
    case True
    then show ?thesis using Cons [of arr] by (simp add: tl ack_line_unrecognized case_prod_beta)
  next
    case False
    then show ?thesis using Cons [of "fst (ack_line Number now arr l)"] ack_line_recognized [OF False, of Number now arr]
      by (simp add: tl case_prod_beta)
  qed
qed







lemma ack_line_subset: "set (fst (ack_line Number now arr l)) \<subseteq> set arr"
  by (auto simp add: ack_line_def Let_def split: option.splits dest: subsetD [OF splice1_set])


lemma ack_lines_subset: "set (fst (ack_lines Number arr tls)) \<subseteq> set arr"
proof (induction tls arbitrary: arr)
  case Nil show ?case by simp
next
  case (Cons tl tls)
  obtain now l where tl: "tl = (now, l)" by (cases tl)
  show ?case using Cons [of "fst (ack_line Number now arr l)"] ack_line_subset [of Number now arr l]
    by (auto simp add: tl case_prod_beta)
qed

lemma ack_lines_list_all: "list_all P arr \<Longrightarrow> list_all P (fst (ack_lines Number arr tls))"
  using ack_lines_subset [of Number arr tls] by (auto simp add: list_all_iff)






lemma devicecmd_eq:
  "devicecmd Number qSN qinfo clock s =
    (if or_empty qSN = [] \<or> or_empty qinfo = [] then (Text ''OK'', s, [])
     else (Text ''OK'',
           update_queue (or_empty qSN)
             (fst (ack_lines Number (get_or_empty s (or_empty qSN)) (timed clock (info_lines (or_empty qinfo))))) s,
           snd (ack_lines Number (get_or_empty s (or_empty qSN)) (timed clock (info_lines (or_empty qinfo))))))"
  by (simp add: devicecmd_def Let_def case_prod_beta)






lemma devicecmd_deviceSeq: "deviceSeq (fst (snd (devicecmd Number qSN qinfo clock s))) = deviceSeq s"
  by (simp add: devicecmd_eq update_queue_def)

lemma devicecmd_queue:
  "get_or_empty (fst (snd (devicecmd Number qSN qinfo clock s))) sn =
     (if sn = or_empty qSN \<and> sn \<noteq> [] \<and> or_empty qinfo \<noteq> []
      then fst (ack_lines Number (get_or_empty s sn) (timed clock (info_lines (or_empty qinfo))))
      else get_or_empty s sn)"
  by (auto simp add: devicecmd_eq get_or_empty_update_queue)

subsection \<open>The structured acknowledgment\<close>





lemma printable_Str: "printable (Str x)"
  by (simp add: printable_def to_string_def)

lemma get_or_empty_set:
  "get_or_empty (s\<lparr>deviceCommands := (deviceCommands s)(key \<mapsto> xs)\<rparr>) sn =
     (if sn = key then xs else get_or_empty s sn)"
  by (simp add: get_or_empty_def)

lemma lookup_Str: "lookup s (Str sn) = get_or_empty s sn"
  by (simp add: lookup_def)

lemma devicecmd_aspx_missing:
  assumes "falsy_value (form_SN req) \<or> falsy_value (ID req) \<or> falsy_value (CMD req)"
  shows "devicecmd_aspx Number req now s = (Text ''OK'', s, [])"
  using assms by (auto simp add: devicecmd_aspx_def Let_def)

lemma devicecmd_aspx_Str:
  assumes "form_SN req = Str sn" "sn \<noteq> []" "\<not> falsy_value (ID req)" "\<not> falsy_value (CMD req)"
  shows "devicecmd_aspx Number req now s =
    (case to_number Number (ID req) of
       None \<Rightarrow> (ServerError, s, [])
     | Some cmdId \<Rightarrow>
         (case findIndex (\<lambda>c. Some (id_cmd c) = cmdId) (get_or_empty s sn) of
            Some idx \<Rightarrow>
              if list_all printable [ID req, CMD req, Return req]
              then (Text ''OK'', update_queue sn (splice1 idx (get_or_empty s sn)) s,
                    [Acked ((get_or_empty s sn ! idx)\<lparr>status := Done, doneAt := Some now,
                       deviceAck := Some (if Return req = Str ''0'' then ''OK'' else ''ERR'')\<rparr>)])
              else (ServerError,
                    s\<lparr>deviceCommands := (deviceCommands s)(sn \<mapsto> (get_or_empty s sn)[idx :=
                      (get_or_empty s sn ! idx)\<lparr>status := Done, doneAt := Some now,
                       deviceAck := Some (if Return req = Str ''0'' then ''OK'' else ''ERR'')\<rparr>])\<rparr>,
                    [])
          | None \<Rightarrow> unknown_ack req cmdId s))"
  using assms
  by (simp add: devicecmd_aspx_def falsy_value_def printable_def to_string_def Let_def
      split: option.split)

lemma devicecmd_aspx_Value:
  assumes "form_SN req = Value t p n" "\<not> falsy_value (form_SN req)" "\<not> falsy_value (ID req)" "\<not> falsy_value (CMD req)"
  shows "devicecmd_aspx Number req now s =
    (case to_number Number (ID req) of
       None \<Rightarrow> (ServerError, s, [])
     | Some cmdId \<Rightarrow> unknown_ack req cmdId s)"
  using assms by (simp add: devicecmd_aspx_def Let_def)

lemma unknown_ack_state: "fst (snd (unknown_ack req k s)) = s"
  by (simp add: unknown_ack_def)







lemma devicecmd_aspx_deviceSeq: "deviceSeq (fst (snd (devicecmd_aspx Number req now s))) = deviceSeq s"
  by (simp add: devicecmd_aspx_def Let_def update_queue_def unknown_ack_def
      split: option.split jsvalue.split)

lemma devicecmd_aspx_queue:
  "get_or_empty (fst (snd (devicecmd_aspx Number req now s))) sn = get_or_empty s sn
   \<or> (\<exists>i. get_or_empty (fst (snd (devicecmd_aspx Number req now s))) sn = splice1 i (get_or_empty s sn))
   \<or> (\<exists>i c. i < length (get_or_empty s sn) \<and> id_cmd c = id_cmd (get_or_empty s sn ! i) \<and>
         get_or_empty (fst (snd (devicecmd_aspx Number req now s))) sn = (get_or_empty s sn)[i := c])"
proof (cases "falsy_value (form_SN req) \<or> falsy_value (ID req) \<or> falsy_value (CMD req)")
  case True then show ?thesis by (simp add: devicecmd_aspx_missing)
next
  case False
  show ?thesis
  proof (cases "form_SN req")
    case Undefined
    then show ?thesis using False by (simp add: falsy_value_def)
  next
    case (Str sn')
    have sn: "sn' \<noteq> []" using False Str by (simp add: falsy_value_def)
    show ?thesis
    proof (cases "to_number Number (ID req)")
      case None
      then show ?thesis using False by (simp add: devicecmd_aspx_Str [OF Str sn])
    next
      case (Some k)
      show ?thesis
      proof (cases "findIndex (\<lambda>c. Some (id_cmd c) = k) (get_or_empty s sn')")
        case None
        then show ?thesis using False Some
          by (simp add: devicecmd_aspx_Str [OF Str sn] unknown_ack_state)
      next
        case (Some i)
        have i: "i < length (get_or_empty s sn')" using findIndex_Some [OF Some] by simp
        define acked where "acked = (get_or_empty s sn' ! i)\<lparr>status := Done, doneAt := Some now,
              deviceAck := Some (if Return req = Str ''0'' then ''OK'' else ''ERR'')\<rparr>"
        have a: "id_cmd acked = id_cmd (get_or_empty s sn' ! i)" by (simp add: acked_def)
        show ?thesis
        proof (cases "list_all printable [ID req, CMD req, Return req]")
          case True
          then have "get_or_empty (fst (snd (devicecmd_aspx Number req now s))) sn =
              (if sn = sn' then splice1 i (get_or_empty s sn') else get_or_empty s sn)"
            using False \<open>to_number Number (ID req) = Some k\<close> Some
            by (simp add: devicecmd_aspx_Str [OF Str sn] get_or_empty_update_queue)
          then show ?thesis by (cases "sn = sn'") auto
        next
          case unprintable: False
          then have "get_or_empty (fst (snd (devicecmd_aspx Number req now s))) sn =
              (if sn = sn' then (get_or_empty s sn')[i := acked] else get_or_empty s sn)"
            using False \<open>to_number Number (ID req) = Some k\<close> Some unfolding acked_def
            by (auto simp add: devicecmd_aspx_Str [OF Str sn] get_or_empty_set printable_Str)
          then show ?thesis using i a by (cases "sn = sn'") (simp_all, blast)
        qed
      qed
    qed
  next
    case (Value t p n)
    then show ?thesis using False
      by (simp add: devicecmd_aspx_Value [OF Value] unknown_ack_state split: option.split)
  qed
qed

lemma devicecmd_aspx_queue_ok:
  assumes "fst (devicecmd_aspx Number req now s) \<noteq> ServerError"
  shows "get_or_empty (fst (snd (devicecmd_aspx Number req now s))) sn = get_or_empty s sn
   \<or> (\<exists>i. get_or_empty (fst (snd (devicecmd_aspx Number req now s))) sn = splice1 i (get_or_empty s sn))"
proof (cases "falsy_value (form_SN req) \<or> falsy_value (ID req) \<or> falsy_value (CMD req)")
  case True then show ?thesis by (simp add: devicecmd_aspx_missing)
next
  case False
  show ?thesis
  proof (cases "form_SN req")
    case Undefined
    then show ?thesis using False by (simp add: falsy_value_def)
  next
    case (Str sn')
    have sn: "sn' \<noteq> []" using False Str by (simp add: falsy_value_def)
    show ?thesis using assms False
      by (auto simp add: devicecmd_aspx_Str [OF Str sn] get_or_empty_update_queue unknown_ack_state
          split: option.splits if_splits)
  next
    case (Value t p n)
    then show ?thesis using False
      by (simp add: devicecmd_aspx_Value [OF Value] unknown_ack_state split: option.split)
  qed
qed


subsection \<open>What one request does to a device's queue and counter\<close>

lemma serve_last_id:
  "last_id (snd (serve Number req clock s)) sn = last_id s sn + length (queued_for sn (req, fst (serve Number req clock s)))"
proof (cases req)
  case (QueueCommand bSN bcommand)
  show ?thesis unfolding QueueCommand
    by (simp add: queue_command_def case_prod_beta queueCommand_last_id queueCommand_id)
next
  case (RequestUsers qSN)
  show ?thesis unfolding RequestUsers
    by (simp add: request_users_def case_prod_beta queueCommand_last_id queueCommand_id)
next
  case (RequestAttendance qSN)
  show ?thesis unfolding RequestAttendance
    by (simp add: request_attendance_def case_prod_beta queueCommand_last_id queueCommand_id)
next
  case (CommandsOf x)
  show ?thesis unfolding CommandsOf by (simp add: commands_sn_def)
next
  case (GetRequest qSN)
  show ?thesis unfolding GetRequest by (simp add: getrequest_eq last_id_def)
next
  case (DeviceCmd qSN qinfo)
  show ?thesis unfolding DeviceCmd by (simp add: devicecmd_eq last_id_def update_queue_def)
next
  case (DeviceCmdAspx f)
  show ?thesis using devicecmd_aspx_deviceSeq [of Number f "clock 0" s] unfolding DeviceCmdAspx
    by (simp add: case_prod_beta last_id_def)
qed

lemma serve_queued_for:
  "queued_for sn (req, fst (serve Number req clock s)) = [] \<or>
   queued_for sn (req, fst (serve Number req clock s)) = [last_id s sn + 1]"
proof (cases req)
  case (QueueCommand bSN bcommand)
  show ?thesis unfolding QueueCommand
    by (simp add: queue_command_def case_prod_beta queueCommand_id)
next
  case (RequestUsers qSN)
  show ?thesis unfolding RequestUsers
    by (simp add: request_users_def case_prod_beta queueCommand_id)
next
  case (RequestAttendance qSN)
  show ?thesis unfolding RequestAttendance
    by (simp add: request_attendance_def case_prod_beta queueCommand_id)
next
  case (CommandsOf x)
  show ?thesis unfolding CommandsOf by (simp add: commands_sn_def)
next
  case (GetRequest qSN)
  show ?thesis unfolding GetRequest by (simp add: getrequest_eq)
next
  case (DeviceCmd qSN qinfo)
  show ?thesis unfolding DeviceCmd by (simp add: devicecmd_eq)
next
  case (DeviceCmdAspx f)
  show ?thesis unfolding DeviceCmdAspx by simp
qed

lemma run_issued:
  "\<exists>k. issued sn reqs (fst (run Number s reqs)) = [last_id s sn + 1 ..< last_id s sn + 1 + k]
     \<and> last_id (snd (run Number s reqs)) sn = last_id s sn + k"
proof (induction reqs arbitrary: s)
  case Nil show ?case by (simp add: issued_def)
next
  case (Cons rq reqs)
  obtain req clock where rq: "rq = (req, clock)" by (cases rq)
  let ?r = "fst (serve Number req clock s)" and ?s1 = "snd (serve Number req clock s)"
  let ?q = "queued_for sn (req, ?r)"
  let ?rest = "issued sn reqs (fst (run Number ?s1 reqs))"
  have i: "issued sn (rq # reqs) (fst (run Number s (rq # reqs))) = ?q @ ?rest"
    by (simp add: rq issued_def case_prod_beta)
  have s2: "snd (run Number s (rq # reqs)) = snd (run Number ?s1 reqs)"
    by (simp add: rq case_prod_beta)
  have l: "last_id ?s1 sn = last_id s sn + length ?q" by (rule serve_last_id)
  have q: "?q = [] \<or> ?q = [last_id s sn + 1]" by (rule serve_queued_for)
  obtain k where ih: "?rest = [last_id ?s1 sn + 1 ..< last_id ?s1 sn + 1 + k]"
    "last_id (snd (run Number ?s1 reqs)) sn = last_id ?s1 sn + k"
    using Cons [of ?s1] by blast
  show ?case
  proof (cases "?q = []")
    case True
    then have "?q @ ?rest = [last_id s sn + 1 ..< last_id s sn + 1 + k]" using ih(1) l by simp
    moreover have "last_id (snd (run Number ?s1 reqs)) sn = last_id s sn + k" using ih(2) l True by simp
    ultimately show ?thesis unfolding i s2 by blast
  next
    case False
    then have q1: "?q = [last_id s sn + 1]" using q by blast
    have l1: "last_id ?s1 sn = last_id s sn + 1" using l q1 by simp
    have "[last_id s sn + 1 ..< last_id s sn + 1 + (Suc k)] =
          (last_id s sn + 1) # [last_id s sn + 1 + 1 ..< last_id s sn + 1 + 1 + k]"
      by (simp add: upt_rec)
    then have "?q @ ?rest = [last_id s sn + 1 ..< last_id s sn + 1 + Suc k]"
      using ih(1) q1 l1 by simp
    moreover have "last_id (snd (run Number ?s1 reqs)) sn = last_id s sn + Suc k" using ih(2) l1 by simp
    ultimately show ?thesis unfolding i s2 by blast
  qed
qed

lemma serve_queue_cases:
  "(\<exists>c. get_or_empty (snd (serve Number req clock s)) sn = get_or_empty s sn @ [c] \<and> status c = Pending
        \<and> id_cmd c = last_id s sn + 1 \<and> last_id (snd (serve Number req clock s)) sn = last_id s sn + 1)
   \<or> (last_id (snd (serve Number req clock s)) sn = last_id s sn \<and>
       (get_or_empty (snd (serve Number req clock s)) sn = get_or_empty s sn
        \<or> get_or_empty (snd (serve Number req clock s)) sn = map (mark_sent (clock 0)) (get_or_empty s sn)
        \<or> (\<exists>tls. get_or_empty (snd (serve Number req clock s)) sn = fst (ack_lines Number (get_or_empty s sn) tls))
        \<or> (\<exists>i. get_or_empty (snd (serve Number req clock s)) sn = splice1 i (get_or_empty s sn))
        \<or> (fst (serve Number req clock s) = ServerError \<and>
            (\<exists>i c. i < length (get_or_empty s sn) \<and> id_cmd c = id_cmd (get_or_empty s sn ! i) \<and>
               get_or_empty (snd (serve Number req clock s)) sn = (get_or_empty s sn)[i := c]))))"
proof (cases req)
  case (QueueCommand bSN bcommand)
  show ?thesis unfolding QueueCommand
    by (simp add: queue_command_def case_prod_beta queueCommand_queue queueCommand_last_id queueCommand_status queueCommand_id)
next
  case (RequestUsers qSN)
  show ?thesis unfolding RequestUsers
    by (simp add: request_users_def case_prod_beta queueCommand_queue queueCommand_last_id queueCommand_status queueCommand_id)
next
  case (RequestAttendance qSN)
  show ?thesis unfolding RequestAttendance
    by (simp add: request_attendance_def case_prod_beta queueCommand_queue queueCommand_last_id queueCommand_status queueCommand_id)
next
  case (CommandsOf x)
  show ?thesis unfolding CommandsOf by (simp add: commands_sn_def)
next
  case (GetRequest qSN)
  show ?thesis unfolding GetRequest
    by (simp add: getrequest_queue last_id_def getrequest_deviceSeq)
next
  case (DeviceCmd qSN qinfo)
  show ?thesis unfolding DeviceCmd
    by (simp add: case_prod_beta devicecmd_queue last_id_def devicecmd_deviceSeq) blast
next
  case (DeviceCmdAspx f)
  show ?thesis
  proof (cases "fst (devicecmd_aspx Number f (clock 0) s) = ServerError")
    case True
    then show ?thesis using devicecmd_aspx_queue [of Number f "clock 0" s sn] unfolding DeviceCmdAspx
      by (simp add: case_prod_beta last_id_def devicecmd_aspx_deviceSeq) blast
  next
    case False
    then show ?thesis using devicecmd_aspx_queue_ok [of Number f "clock 0" s sn] unfolding DeviceCmdAspx
      by (simp add: case_prod_beta last_id_def devicecmd_aspx_deviceSeq) blast
  qed
qed

lemma serve_live:
  assumes "list_all live (get_or_empty s sn)" "fst (serve Number req clock s) \<noteq> ServerError"
  shows "list_all live (get_or_empty (snd (serve Number req clock s)) sn)"
  using serve_queue_cases [of Number req clock s sn] assms
    mark_sent_live [OF assms(1), of "clock 0"] list_all_splice1 [OF assms(1)] ack_lines_list_all [OF assms(1)]
  by (auto simp add: live_def)







subsection \<open>Command objects by reference\<close>

lemma map_filter_fresh:
  "list_all (\<lambda>x. x < (r::nat)) refs \<Longrightarrow> List.map_filter (m(r \<mapsto> v)) refs = List.map_filter m refs"
  by (induction refs) (auto simp add: map_filter_simps split: option.splits)

lemma map_filter_snoc:
  "List.map_filter m (refs @ [r]) = List.map_filter m refs @ (case m r of None \<Rightarrow> [] | Some v \<Rightarrow> [v])"
  by (induction refs) (auto simp add: map_filter_simps split: option.splits)

lemma queueCommand_ref_eq:
  "queueCommand_ref sn t now hs =
    (unused (fst hs),
     \<lparr>objects = (objects (fst hs))(unused (fst hs) \<mapsto> new_command (last_id (snd hs) sn + 1) t now),
      unused = Suc (unused (fst hs))\<rparr>,
     \<lparr>deviceCommands = (deviceCommands (snd hs))(sn \<mapsto> get_or_empty (snd hs) sn @ [unused (fst hs)]),
      deviceSeq = (deviceSeq (snd hs))(sn \<mapsto> last_id (snd hs) sn + 1)\<rparr>)"
  by (simp add: queueCommand_ref_def nextCommandIdFor_def new_object_def get_or_empty_def Let_def)

text \<open>
  Read through its references, the store after \<open>queueCommand_ref\<close> is the store
  after \<open>queueCommand\<close>, and the object behind the returned reference is the command
  that \<open>queueCommand\<close> returns.
\<close>

lemma queueCommand_refines:
  assumes "\<forall>sn. allocated hs sn"
  shows "by_value (snd (queueCommand_ref sn t now hs)) = snd (queueCommand sn t now (by_value hs))"
    and "objects (fst (snd (queueCommand_ref sn t now hs))) (fst (queueCommand_ref sn t now hs))
       = Some (fst (queueCommand sn t now (by_value hs)))"
proof -
  have l: "last_id (by_value hs) sn = last_id (snd hs) sn" by (simp add: last_id_def by_value_def)
  have g: "get_or_empty (by_value hs) sn = List.map_filter (objects (fst hs)) (get_or_empty (snd hs) sn)"
    by (cases "deviceCommands (snd hs) sn") (simp_all add: by_value_def get_or_empty_def map_filter_simps)
  have bv: "deviceCommands (by_value x) y = map_option (List.map_filter (objects (fst x))) (deviceCommands (snd x) y)" for x y
    by (simp add: by_value_def)
  have f: "List.map_filter ((objects (fst hs))(unused (fst hs) \<mapsto> v)) refs = List.map_filter (objects (fst hs)) refs"
    if "deviceCommands (snd hs) sn' = Some refs" for sn' refs v
    using assms that map_filter_fresh [of "unused (fst hs)" refs "objects (fst hs)" v]
    by (simp add: allocated_def get_or_empty_def) (metis option.simps(5))
  show "objects (fst (snd (queueCommand_ref sn t now hs))) (fst (queueCommand_ref sn t now hs))
       = Some (fst (queueCommand sn t now (by_value hs)))"
    by (simp add: queueCommand_ref_eq queueCommand_eq l new_command_def)
  have "deviceCommands (by_value (snd (queueCommand_ref sn t now hs))) sn' =
        deviceCommands (snd (queueCommand sn t now (by_value hs))) sn'" for sn'
  proof (cases "sn' = sn")
    case True
    have "List.map_filter ((objects (fst hs))(unused (fst hs) \<mapsto> v)) (get_or_empty (snd hs) sn) =
          List.map_filter (objects (fst hs)) (get_or_empty (snd hs) sn)" for v
      using assms map_filter_fresh [of "unused (fst hs)" "get_or_empty (snd hs) sn" "objects (fst hs)" v]
      by (simp add: allocated_def)
    then show ?thesis using True
      by (simp add: queueCommand_ref_eq queueCommand_eq bv l g map_filter_snoc new_command_def)
  next
    case False
    then show ?thesis using f [of sn']
      by (cases "deviceCommands (snd hs) sn'") (simp_all add: queueCommand_ref_eq queueCommand_eq bv)
  qed
  then have "deviceCommands (by_value (snd (queueCommand_ref sn t now hs))) =
        deviceCommands (snd (queueCommand sn t now (by_value hs)))" by (rule ext)
  moreover have "deviceSeq (by_value (snd (queueCommand_ref sn t now hs))) =
        deviceSeq (snd (queueCommand sn t now (by_value hs)))"
    using l by (simp add: queueCommand_ref_eq queueCommand_eq) (simp add: by_value_def)
  ultimately show "by_value (snd (queueCommand_ref sn t now hs)) = snd (queueCommand sn t now (by_value hs))"
    by simp
qed

subsection \<open>An acknowledgment and its repetition\<close>




text \<open>
  The structured acknowledgment that finds its command and then fails to build its
  message: the command is marked and stays where it is.
\<close>

lemma devicecmd_aspx_marked:
  assumes "form_SN req = Str SN" "SN \<noteq> []" "\<not> falsy_value (ID req)" "\<not> falsy_value (CMD req)"
    and "to_number Number (ID req) = Some k"
    and "findIndex (\<lambda>c. Some (id_cmd c) = k) (get_or_empty s SN) = Some i"
    and "\<not> list_all printable [ID req, CMD req, Return req]"
  shows "devicecmd_aspx Number req now s =
     (ServerError,
      s\<lparr>deviceCommands := (deviceCommands s)(SN \<mapsto> (get_or_empty s SN)[i :=
         (get_or_empty s SN ! i)\<lparr>status := Done, doneAt := Some now,
            deviceAck := Some (if Return req = Str ''0'' then ''OK'' else ''ERR'')\<rparr>])\<rparr>,
      [])"
  using assms(5-7) by (simp add: devicecmd_aspx_Str [OF assms(1-4)])

lemma devicecmd_aspx_acked:
  assumes "form_SN req = Str SN" "SN \<noteq> []" "\<not> falsy_value (ID req)" "\<not> falsy_value (CMD req)"
    and "to_number Number (ID req) = Some k"
    and "findIndex (\<lambda>c. Some (id_cmd c) = k) (get_or_empty s SN) = Some i"
    and "list_all printable [ID req, CMD req, Return req]"
  shows "devicecmd_aspx Number req now s =
     (Text ''OK'', update_queue SN (splice1 i (get_or_empty s SN)) s,
      [Acked ((get_or_empty s SN ! i)\<lparr>status := Done, doneAt := Some now,
            deviceAck := Some (if Return req = Str ''0'' then ''OK'' else ''ERR'')\<rparr>)])"
  using assms(5-7) by (simp add: devicecmd_aspx_Str [OF assms(1-4)])

section \<open>The claims\<close>



text \<open>
  Claim C2, as amended. \<open>queueCommand\<close> returns a reference to the command object
  that it has stored as the last element of the device's queue, not a copy: the
  reference returned is the last element of the array, the queue read through its
  references ends with the created command, and after an assignment to the
  \<open>command\<close> field through the returned reference it ends with the changed command.
\<close>

theorem queueCommand_returns_reference:
  assumes "allocated hs sn"
  shows "get_or_empty (snd (snd (queueCommand_ref sn t now hs))) sn
           = get_or_empty (snd hs) sn @ [fst (queueCommand_ref sn t now hs)]
    \<and> queue_of (snd (queueCommand_ref sn t now hs)) sn
           = queue_of hs sn @ [new_command (last_id (snd hs) sn + 1) t now]
    \<and> queue_of (assign_command (fst (queueCommand_ref sn t now hs)) v (fst (snd (queueCommand_ref sn t now hs))),
                 snd (snd (queueCommand_ref sn t now hs))) sn
           = queue_of hs sn @ [(new_command (last_id (snd hs) sn + 1) t now)\<lparr>command := v\<rparr>]
    \<and> allocated (snd (queueCommand_ref sn t now hs)) sn"
  using assms
  by (simp add: queueCommand_ref_eq allocated_def queue_of_def assign_command_def get_or_empty_def
      map_filter_snoc map_filter_fresh list_all_iff less_Suc_eq)

theorem queueCommand_returns_reference_witness:
  "allocated (snd (queueCommand_ref ''A1'' ''CHECK'' ''t0'' (empty_heap, init))) ''A1''
   \<and> get_or_empty (snd (snd (queueCommand_ref ''A1'' ''CHECK'' ''t0'' (empty_heap, init)))) ''A1'' = [0]
   \<and> unused (fst (snd (queueCommand_ref ''A1'' ''CHECK'' ''t0'' (empty_heap, init)))) = 1
   \<and> queue_of (snd (queueCommand_ref ''A1'' ''CHECK'' ''t0'' (empty_heap, init))) ''A1''
      = [new_command 1 ''CHECK'' ''t0'']
   \<and> fst (queueCommand_ref ''A1'' ''DATA QUERY ATTLOG'' ''t1''
        (snd (queueCommand_ref ''A1'' ''CHECK'' ''t0'' (empty_heap, init)))) = 1
   \<and> get_or_empty (snd (snd (queueCommand_ref ''A1'' ''DATA QUERY ATTLOG'' ''t1''
        (snd (queueCommand_ref ''A1'' ''CHECK'' ''t0'' (empty_heap, init)))))) ''A1'' = [0, 1]
   \<and> queue_of (snd (queueCommand_ref ''A1'' ''DATA QUERY ATTLOG'' ''t1''
        (snd (queueCommand_ref ''A1'' ''CHECK'' ''t0'' (empty_heap, init))))) ''A1''
      = [new_command 1 ''CHECK'' ''t0'', new_command 2 ''DATA QUERY ATTLOG'' ''t1'']
   \<and> queue_of (assign_command
         (fst (queueCommand_ref ''A1'' ''DATA QUERY ATTLOG'' ''t1''
            (snd (queueCommand_ref ''A1'' ''CHECK'' ''t0'' (empty_heap, init)))))
         ''REBOOT''
         (fst (snd (queueCommand_ref ''A1'' ''DATA QUERY ATTLOG'' ''t1''
            (snd (queueCommand_ref ''A1'' ''CHECK'' ''t0'' (empty_heap, init)))))),
       snd (snd (queueCommand_ref ''A1'' ''DATA QUERY ATTLOG'' ''t1''
            (snd (queueCommand_ref ''A1'' ''CHECK'' ''t0'' (empty_heap, init)))))) ''A1''
      = [new_command 1 ''CHECK'' ''t0'', (new_command 2 ''DATA QUERY ATTLOG'' ''t1'')\<lparr>command := ''REBOOT''\<rparr>]"
proof -
  let ?hs = "snd (queueCommand_ref ''A1'' ''CHECK'' ''t0'' (empty_heap, init))"
  have a: "allocated ?hs ''A1''"
    by (simp add: queueCommand_ref_eq allocated_def init_def empty_heap_def get_or_empty_def)
  have g: "get_or_empty (snd ?hs) ''A1'' = [0]"
    by (simp add: queueCommand_ref_eq init_def empty_heap_def get_or_empty_def)
  have u: "unused (fst ?hs) = 1"
    by (simp add: queueCommand_ref_eq init_def empty_heap_def)
  have q: "queue_of ?hs ''A1'' = [new_command 1 ''CHECK'' ''t0'']"
    by (simp add: queueCommand_ref_eq queue_of_def init_def empty_heap_def get_or_empty_def
        map_filter_simps last_id_def)
  have l: "last_id (snd ?hs) ''A1'' = 1"
    by (simp add: queueCommand_ref_eq init_def last_id_def)
  have r: "fst (queueCommand_ref ''A1'' ''DATA QUERY ATTLOG'' ''t1'' ?hs) = 1"
    using u by (simp add: queueCommand_ref_eq)
  note t = queueCommand_returns_reference [OF a, of "''DATA QUERY ATTLOG''" "''t1''" "''REBOOT''"]
  show ?thesis using t a g u q l r by (simp add: numeral_2_eq_2)
qed

text \<open>
  The claim as it was stated fails: after \<open>queueCommand\<close> on the empty store, an
  assignment through the returned reference changes the command that the queue of
  \<open>A1\<close> holds.
\<close>

theorem returned_command_is_not_a_copy:
  "queue_of (assign_command (fst (queueCommand_ref ''A1'' ''CHECK'' ''t0'' (empty_heap, init))) ''REBOOT''
         (fst (snd (queueCommand_ref ''A1'' ''CHECK'' ''t0'' (empty_heap, init)))),
       snd (snd (queueCommand_ref ''A1'' ''CHECK'' ''t0'' (empty_heap, init)))) ''A1''
   \<noteq> queue_of (snd (queueCommand_ref ''A1'' ''CHECK'' ''t0'' (empty_heap, init))) ''A1''"
  by (simp add: queueCommand_ref_eq queue_of_def assign_command_def get_or_empty_def init_def
      empty_heap_def map_filter_simps new_command_def last_id_def)

text \<open>
  Claim C3, as amended. A structured acknowledgment in which the device identifier
  (in the query and in the body), the command id or the command text is missing or
  empty is answered \<open>OK\<close>, leaves the store unchanged and acknowledges nothing.
  The return code is not among the fields that line 252 requires.
\<close>

theorem structured_ack_missing_field:
  "falsy_value (form_SN req) \<or> falsy_value (ID req) \<or> falsy_value (CMD req) \<Longrightarrow>
   devicecmd_aspx Number req now s = (Text ''OK'', s, [])"
  by (rule devicecmd_aspx_missing)

theorem structured_ack_missing_field_witness:
  "falsy_value (ID \<lparr>query_SN = Str ''A1'', body_SN = Undefined, ID = Undefined, Return = Str ''0'', CMD = Str ''CHECK''\<rparr>)
   \<and> devicecmd_aspx Number_digits
     \<lparr>query_SN = Str ''A1'', body_SN = Undefined, ID = Undefined, Return = Str ''0'', CMD = Str ''CHECK''\<rparr>
     ''t1'' (snd (queueCommand ''A1'' ''CHECK'' ''t0'' init))
   = (Text ''OK'', snd (queueCommand ''A1'' ''CHECK'' ''t0'' init), [])"
proof -
  have h: "falsy_value (ID \<lparr>query_SN = Str ''A1'', body_SN = Undefined, ID = Undefined, Return = Str ''0'', CMD = Str ''CHECK''\<rparr>)"
    by (simp add: falsy_value_def)
  then show ?thesis using structured_ack_missing_field by blast
qed

text \<open>
  The claim as it was stated, with the return code among the required fields, fails:
  a request without a return code for the queued command 1 of \<open>A1\<close> is processed
  as an acknowledgment with result \<open>ERR\<close>, and the command leaves the queue.
\<close>

theorem structured_ack_without_return_code:
  "snd (snd (devicecmd_aspx Number_digits
     \<lparr>query_SN = Str ''A1'', body_SN = Undefined, ID = Str ''1'', Return = Undefined, CMD = Str ''CHECK''\<rparr>
     ''t1'' (snd (queueCommand ''A1'' ''CHECK'' ''t0'' init))))
    = [Acked ((new_command 1 ''CHECK'' ''t0'')\<lparr>status := Done, doneAt := Some ''t1'', deviceAck := Some ''ERR''\<rparr>)]
   \<and> get_or_empty (fst (snd (devicecmd_aspx Number_digits
     \<lparr>query_SN = Str ''A1'', body_SN = Undefined, ID = Str ''1'', Return = Undefined, CMD = Str ''CHECK''\<rparr>
     ''t1'' (snd (queueCommand ''A1'' ''CHECK'' ''t0'' init))))) ''A1'' = []
   \<and> get_or_empty (snd (queueCommand ''A1'' ''CHECK'' ''t0'' init)) ''A1'' = [new_command 1 ''CHECK'' ''t0'']"
  by code_simp





text \<open>
  Claim C6. The batch handler always answers \<open>OK\<close>, and what it does to the device's
  queue is what its lines do one after the other, each at the time read for it. A
  line with fewer than three fields or a first field other than \<open>C\<close> changes
  nothing: handling a list of lines gives the same queue, and the same
  acknowledgments, as handling the list without such lines. Every other line is
  \<open>C:<id>:<result>\<close> with no colon in the id, and for such a line the \<open>deviceAck\<close>
  recorded is the whole of \<open>result\<close>, colons included. (The lines are those of
  lines 203 to 206: the pieces of \<open>info\<close>, each trimmed.)
\<close>

theorem batch_skips_unrecognized_lines:
  "fst (devicecmd Number qSN qinfo clock s) = Text ''OK''
   \<and> (or_empty qSN \<noteq> [] \<and> or_empty qinfo \<noteq> [] \<longrightarrow>
        snd (devicecmd Number qSN qinfo clock s) =
          (update_queue (or_empty qSN)
             (fst (ack_lines Number (get_or_empty s (or_empty qSN)) (timed clock (info_lines (or_empty qinfo))))) s,
           snd (ack_lines Number (get_or_empty s (or_empty qSN)) (timed clock (info_lines (or_empty qinfo))))))
   \<and> ack_lines Number arr (filter (\<lambda>tl. \<not> unrecognized (split CHR '':'' (snd tl))) tls) =
        (fst (ack_lines Number arr tls),
         filter (\<lambda>e. \<not> is_Unrecognized e) (snd (ack_lines Number arr tls)))
   \<and> (unrecognized (split CHR '':'' l) \<longrightarrow> ack_line Number now arr l = (arr, Unrecognized l))
   \<and> (\<not> unrecognized (split CHR '':'' l) \<longrightarrow> (\<exists>i r. l = ''C:'' @ i @ '':'' @ r \<and> CHR '':'' \<notin> set i))
   \<and> (CHR '':'' \<notin> set i \<longrightarrow>
        \<not> unrecognized (split CHR '':'' (''C:'' @ i @ '':'' @ r)) \<and>
        ack_line Number now arr (''C:'' @ i @ '':'' @ r) =
          (case findIndex (\<lambda>c. Some (id_cmd c) = Number i) arr of
             None \<Rightarrow> (arr, UnknownId (Number i))
           | Some idx \<Rightarrow> (splice1 idx arr,
               Acked ((arr ! idx)\<lparr>status := Done, doneAt := Some now, deviceAck := Some r\<rparr>))))"
proof -
  have 1: "fst (devicecmd Number qSN qinfo clock s) = Text ''OK''" by (simp add: devicecmd_eq)
  have 2: "or_empty qSN \<noteq> [] \<and> or_empty qinfo \<noteq> [] \<longrightarrow>
        snd (devicecmd Number qSN qinfo clock s) =
          (update_queue (or_empty qSN)
             (fst (ack_lines Number (get_or_empty s (or_empty qSN)) (timed clock (info_lines (or_empty qinfo))))) s,
           snd (ack_lines Number (get_or_empty s (or_empty qSN)) (timed clock (info_lines (or_empty qinfo)))))"
    by (simp add: devicecmd_eq)
  have 6: "\<not> unrecognized (split CHR '':'' (''C:'' @ i @ '':'' @ r))" if "CHR '':'' \<notin> set i"
    using split_not_Nil [of "CHR '':''" r] unfolding split_shape [OF that]
    by (cases "split CHR '':'' r") (simp_all add: unrecognized_def)
  show ?thesis
    using 1 2 6 ack_lines_skip [of Number arr tls] ack_line_unrecognized [of l Number now arr]
      recognized_shape [of l] ack_line_shape [of i Number now arr r]
    by blast
qed

theorem batch_skips_unrecognized_lines_witness:
  "unrecognized (split CHR '':'' ''X:1'')
   \<and> CHR '':'' \<notin> set ''2''
   \<and> get_or_empty (snd (queueCommand ''A1'' ''B'' ''t1'' (snd (queueCommand ''A1'' ''A'' ''t0'' init)))) ''A1''
      = [new_command 1 ''A'' ''t0'', new_command 2 ''B'' ''t1'']
   \<and> ack_line Number_digits ''t2'' [new_command 1 ''A'' ''t0'', new_command 2 ''B'' ''t1''] ''X:1''
      = ([new_command 1 ''A'' ''t0'', new_command 2 ''B'' ''t1''], Unrecognized ''X:1'')
   \<and> ack_line Number_digits ''t2'' [new_command 1 ''A'' ''t0'', new_command 2 ''B'' ''t1''] (''C:'' @ ''2'' @ '':'' @ ''OK:a'')
      = ([new_command 1 ''A'' ''t0''],
         Acked ((new_command 2 ''B'' ''t1'')\<lparr>status := Done, doneAt := Some ''t2'', deviceAck := Some ''OK:a''\<rparr>))
   \<and> timed ticking (info_lines (''X:1'' @ [LF] @ ''C:2:OK:a'' @ [LF] @ ''C:1:OK''))
      = [(''t0'', ''X:1''), (''t1'', ''C:2:OK:a''), (''t2'', ''C:1:OK'')]
   \<and> snd (snd (devicecmd Number_digits (Some ''A1'') (Some (''X:1'' @ [LF] @ ''C:2:OK:a'' @ [LF] @ ''C:1:OK'')) ticking
        (snd (queueCommand ''A1'' ''B'' ''t1'' (snd (queueCommand ''A1'' ''A'' ''t0'' init))))))
      = [Unrecognized ''X:1'',
         Acked ((new_command 2 ''B'' ''t1'')\<lparr>status := Done, doneAt := Some ''t1'', deviceAck := Some ''OK:a''\<rparr>),
         Acked ((new_command 1 ''A'' ''t0'')\<lparr>status := Done, doneAt := Some ''t2'', deviceAck := Some ''OK''\<rparr>)]
   \<and> get_or_empty (fst (snd (devicecmd Number_digits (Some ''A1'') (Some (''X:1'' @ [LF] @ ''C:2:OK:a'' @ [LF] @ ''C:1:OK'')) ticking
        (snd (queueCommand ''A1'' ''B'' ''t1'' (snd (queueCommand ''A1'' ''A'' ''t0'' init))))))) ''A1''
      = []"
proof -
  let ?s = "snd (queueCommand ''A1'' ''B'' ''t1'' (snd (queueCommand ''A1'' ''A'' ''t0'' init)))"
  let ?arr = "[new_command 1 ''A'' ''t0'', new_command 2 ''B'' ''t1'']"
  let ?info = "''X:1'' @ [LF] @ ''C:2:OK:a'' @ [LF] @ ''C:1:OK''"
  let ?tls = "[(''t0'', ''X:1''), (''t1'', ''C:2:OK:a''), (''t2'', ''C:1:OK'')]"
  have u: "unrecognized (split CHR '':'' ''X:1'')" by code_simp
  have i: "CHR '':'' \<notin> set ''2''" by simp
  have q: "get_or_empty ?s ''A1'' = ?arr" by code_simp
  have k: "findIndex (\<lambda>c. Some (id_cmd c) = Number_digits ''2'') ?arr = Some 1" by code_simp
  have sp: "splice1 1 ?arr = [new_command 1 ''A'' ''t0'']" "?arr ! 1 = new_command 2 ''B'' ''t1''"
    by (simp_all add: splice1_def)
  have l: "timed ticking (info_lines ?info) = ?tls" by code_simp
  have o: "or_empty (Some ''A1'') = ''A1''" "or_empty (Some ?info) = ?info" by (simp_all add: or_empty_def)
  have ne: "''A1'' \<noteq> []" "?info \<noteq> []" by simp_all
  note t = batch_skips_unrecognized_lines [where Number = Number_digits and qSN = "Some ''A1''"
      and qinfo = "Some ?info" and now = "''t2''" and s = ?s and arr = ?arr and l = "''X:1''"
      and i = "''2''" and r = "''OK:a''" and clock = ticking]
  have a: "ack_line Number_digits ''t2'' ?arr ''X:1'' = (?arr, Unrecognized ''X:1'')"
    using t u by blast
  have b: "ack_line Number_digits ''t2'' ?arr (''C:'' @ ''2'' @ '':'' @ ''OK:a'')
      = ([new_command 1 ''A'' ''t0''],
         Acked ((new_command 2 ''B'' ''t1'')\<lparr>status := Done, doneAt := Some ''t2'', deviceAck := Some ''OK:a''\<rparr>))"
    using t i k sp by simp
  have al: "ack_lines Number_digits ?arr ?tls =
      ([],
       [Unrecognized ''X:1'',
        Acked ((new_command 2 ''B'' ''t1'')\<lparr>status := Done, doneAt := Some ''t1'', deviceAck := Some ''OK:a''\<rparr>),
        Acked ((new_command 1 ''A'' ''t0'')\<lparr>status := Done, doneAt := Some ''t2'', deviceAck := Some ''OK''\<rparr>)])"
    by code_simp
  have "snd (devicecmd Number_digits (Some ''A1'') (Some ?info) ticking ?s) =
          (update_queue ''A1'' (fst (ack_lines Number_digits ?arr ?tls)) ?s,
           snd (ack_lines Number_digits ?arr ?tls))"
    using t ne unfolding o q l by blast
  then have c: "snd (devicecmd Number_digits (Some ''A1'') (Some ?info) ticking ?s) =
          (update_queue ''A1'' [] ?s,
           [Unrecognized ''X:1'',
            Acked ((new_command 2 ''B'' ''t1'')\<lparr>status := Done, doneAt := Some ''t1'', deviceAck := Some ''OK:a''\<rparr>),
            Acked ((new_command 1 ''A'' ''t0'')\<lparr>status := Done, doneAt := Some ''t2'', deviceAck := Some ''OK''\<rparr>)])"
    unfolding al by simp
  show ?thesis using u i q a b l c by (simp add: get_or_empty_update_queue)
qed

text \<open>
  Claim C7. When a structured acknowledgment finds its command, the \<open>deviceAck\<close> it
  records is \<open>OK\<close> if the return code is the string \<open>0\<close>, and \<open>ERR\<close> for any
  other return code, an absent one included. This is what it reports when its fields
  can be converted to text, and what it has assigned to the command in the queue
  when they cannot.
\<close>

theorem structured_ack_return_code:
  assumes "form_SN req = Str SN" "SN \<noteq> []" "\<not> falsy_value (ID req)" "\<not> falsy_value (CMD req)"
    and "to_number Number (ID req) = Some k"
    and "list_ex (\<lambda>c. Some (id_cmd c) = k) (get_or_empty s SN)"
  shows "(list_all printable [ID req, CMD req, Return req] \<longrightarrow>
      (\<exists>c. snd (snd (devicecmd_aspx Number req now s)) = [Acked c] \<and> status c = Done \<and>
         (Return req = Str ''0'' \<longrightarrow> deviceAck c = Some ''OK'') \<and>
         (Return req \<noteq> Str ''0'' \<longrightarrow> deviceAck c = Some ''ERR'')))
    \<and> (\<not> list_all printable [ID req, CMD req, Return req] \<longrightarrow>
      list_ex (\<lambda>c. status c = Done \<and> deviceAck c = Some (if Return req = Str ''0'' then ''OK'' else ''ERR''))
        (get_or_empty (fst (snd (devicecmd_aspx Number req now s))) SN))"
proof -
  obtain i where i: "findIndex (\<lambda>c. Some (id_cmd c) = k) (get_or_empty s SN) = Some i"
    using findIndex_ex [OF assms(6)] by blast
  have l: "i < length (get_or_empty s SN)" using findIndex_Some [OF i] by simp
  have 1: "\<exists>c. snd (snd (devicecmd_aspx Number req now s)) = [Acked c] \<and> status c = Done \<and>
         (Return req = Str ''0'' \<longrightarrow> deviceAck c = Some ''OK'') \<and>
         (Return req \<noteq> Str ''0'' \<longrightarrow> deviceAck c = Some ''ERR'')"
    if p: "list_all printable [ID req, CMD req, Return req]"
    by (simp add: devicecmd_aspx_acked [OF assms(1-5) i p])
  have 2: "list_ex (\<lambda>c. status c = Done \<and> deviceAck c = Some (if Return req = Str ''0'' then ''OK'' else ''ERR''))
        (get_or_empty (fst (snd (devicecmd_aspx Number req now s))) SN)"
    if p: "\<not> list_all printable [ID req, CMD req, Return req]"
  proof -
    define acked where "acked = (get_or_empty s SN ! i)\<lparr>status := Done, doneAt := Some now,
            deviceAck := Some (if Return req = Str ''0'' then ''OK'' else ''ERR'')\<rparr>"
    have "get_or_empty (fst (snd (devicecmd_aspx Number req now s))) SN = (get_or_empty s SN)[i := acked]"
      unfolding acked_def by (simp add: devicecmd_aspx_marked [OF assms(1-5) i p] get_or_empty_set)
    moreover have "acked \<in> set ((get_or_empty s SN)[i := acked])" using l by (rule set_update_memI)
    moreover have "status acked = Done \<and> deviceAck acked = Some (if Return req = Str ''0'' then ''OK'' else ''ERR'')"
      by (simp add: acked_def)
    ultimately show ?thesis unfolding list_ex_iff by metis
  qed
  show ?thesis using 1 2 by blast
qed

theorem structured_ack_return_code_witness:
  "list_ex (\<lambda>c. Some (id_cmd c) = Some 1) (get_or_empty (snd (queueCommand ''A1'' ''CHECK'' ''t0'' init)) ''A1'')
   \<and> (\<exists>c. snd (snd (devicecmd_aspx Number_digits
        \<lparr>query_SN = Str ''A1'', body_SN = Undefined, ID = Str ''1'', Return = Str ''0'', CMD = Str ''CHECK''\<rparr>
        ''t1'' (snd (queueCommand ''A1'' ''CHECK'' ''t0'' init)))) = [Acked c] \<and> deviceAck c = Some ''OK'')
   \<and> (\<exists>c. snd (snd (devicecmd_aspx Number_digits
        \<lparr>query_SN = Str ''A1'', body_SN = Undefined, ID = Str ''1'', Return = Str ''-1'', CMD = Str ''CHECK''\<rparr>
        ''t1'' (snd (queueCommand ''A1'' ''CHECK'' ''t0'' init)))) = [Acked c] \<and> deviceAck c = Some ''ERR'')
   \<and> (\<exists>c. snd (snd (devicecmd_aspx Number_digits
        \<lparr>query_SN = Str ''A1'', body_SN = Undefined, ID = Str ''1'', Return = Undefined, CMD = Str ''CHECK''\<rparr>
        ''t1'' (snd (queueCommand ''A1'' ''CHECK'' ''t0'' init)))) = [Acked c] \<and> deviceAck c = Some ''ERR'')"
proof -
  let ?s = "snd (queueCommand ''A1'' ''CHECK'' ''t0'' init)"
  let ?r0 = "\<lparr>query_SN = Str ''A1'', body_SN = Undefined, ID = Str ''1'', Return = Str ''0'', CMD = Str ''CHECK''\<rparr>"
  let ?r1 = "\<lparr>query_SN = Str ''A1'', body_SN = Undefined, ID = Str ''1'', Return = Str ''-1'', CMD = Str ''CHECK''\<rparr>"
  let ?r2 = "\<lparr>query_SN = Str ''A1'', body_SN = Undefined, ID = Str ''1'', Return = Undefined, CMD = Str ''CHECK''\<rparr>"
  have h: "list_ex (\<lambda>c. Some (id_cmd c) = Some 1) (get_or_empty ?s ''A1'')" by code_simp
  have n: "''A1'' \<noteq> []" by simp
  have f0: "form_SN ?r0 = Str ''A1''" "\<not> falsy_value (ID ?r0)" "\<not> falsy_value (CMD ?r0)"
      "to_number Number_digits (ID ?r0) = Some (Some 1)" "list_all printable [ID ?r0, CMD ?r0, Return ?r0]"
      "Return ?r0 = Str ''0''"
    by (simp_all add: form_SN_def or_value_def falsy_value_def to_number_def Number_digits_def
        printable_def to_string_def)
  have f1: "form_SN ?r1 = Str ''A1''" "\<not> falsy_value (ID ?r1)" "\<not> falsy_value (CMD ?r1)"
      "to_number Number_digits (ID ?r1) = Some (Some 1)" "list_all printable [ID ?r1, CMD ?r1, Return ?r1]"
      "Return ?r1 \<noteq> Str ''0''"
    by (simp_all add: form_SN_def or_value_def falsy_value_def to_number_def Number_digits_def
        printable_def to_string_def)
  have f2: "form_SN ?r2 = Str ''A1''" "\<not> falsy_value (ID ?r2)" "\<not> falsy_value (CMD ?r2)"
      "to_number Number_digits (ID ?r2) = Some (Some 1)" "list_all printable [ID ?r2, CMD ?r2, Return ?r2]"
      "Return ?r2 \<noteq> Str ''0''"
    by (simp_all add: form_SN_def or_value_def falsy_value_def to_number_def Number_digits_def
        printable_def to_string_def)
  have "\<exists>c. snd (snd (devicecmd_aspx Number_digits ?r0 ''t1'' ?s)) = [Acked c] \<and> deviceAck c = Some ''OK''"
    using structured_ack_return_code [OF f0(1) n f0(2,3,4) h, of "''t1''"] f0(5,6) by blast
  moreover have "\<exists>c. snd (snd (devicecmd_aspx Number_digits ?r1 ''t1'' ?s)) = [Acked c] \<and> deviceAck c = Some ''ERR''"
    using structured_ack_return_code [OF f1(1) n f1(2,3,4) h, of "''t1''"] f1(5,6) by blast
  moreover have "\<exists>c. snd (snd (devicecmd_aspx Number_digits ?r2 ''t1'' ?s)) = [Acked c] \<and> deviceAck c = Some ''ERR''"
    using structured_ack_return_code [OF f2(1) n f2(2,3,4) h, of "''t1''"] f2(5,6) by blast
  ultimately show ?thesis using h by blast
qed

text \<open>
  Claim C8. Along any sequence of requests from the empty store, the ids handed out
  for a device are \<open>1, 2, ..., k\<close> in this order: they start at 1, increase strictly
  and never repeat, whatever polls and acknowledgments come in between, also those
  that delete the device's entry from \<open>deviceCommands\<close>.
\<close>

theorem ids_count_up_from_one:
  "issued sn reqs (fst (run Number init reqs)) = [1 ..< Suc (length (issued sn reqs (fst (run Number init reqs))))]"
proof -
  have "last_id (init :: cmd store) sn = 0" by (simp add: last_id_def init_def)
  then obtain k where k: "issued sn reqs (fst (run Number init reqs)) = [1 ..< 1 + k]"
    using run_issued [of sn reqs Number init] by auto
  then have "length (issued sn reqs (fst (run Number init reqs))) = k" by simp
  then show ?thesis using k by simp
qed

theorem ids_count_up_from_one_witness:
  "fst (run Number_digits init
     [(QueueCommand (Some ''A1'') (Some ''CHECK''), always ''t0''), (GetRequest (Some ''A1''), always ''t1''),
      (DeviceCmd (Some ''A1'') (Some ''C:1:OK''), always ''t2''), (CommandsOf ''A1'', always ''t3''),
      (RequestUsers (Some ''A1''), always ''t4'')])
   = [Queued (new_command 1 ''CHECK'' ''t0''), Text (''C:1:CHECK'' @ [LF]), Text ''OK'',
      CommandList ''A1'' [], Queued (new_command 2 ''CHECK'' ''t4'')]
   \<and> issued ''A1''
     [(QueueCommand (Some ''A1'') (Some ''CHECK''), always ''t0''), (GetRequest (Some ''A1''), always ''t1''),
      (DeviceCmd (Some ''A1'') (Some ''C:1:OK''), always ''t2''), (CommandsOf ''A1'', always ''t3''),
      (RequestUsers (Some ''A1''), always ''t4'')]
     (fst (run Number_digits init
     [(QueueCommand (Some ''A1'') (Some ''CHECK''), always ''t0''), (GetRequest (Some ''A1''), always ''t1''),
      (DeviceCmd (Some ''A1'') (Some ''C:1:OK''), always ''t2''), (CommandsOf ''A1'', always ''t3''),
      (RequestUsers (Some ''A1''), always ''t4'')])) = [1, 2]"
proof -
  let ?reqs = "[(QueueCommand (Some ''A1'') (Some ''CHECK''), always ''t0''), (GetRequest (Some ''A1''), always ''t1''),
      (DeviceCmd (Some ''A1'') (Some ''C:1:OK''), always ''t2''), (CommandsOf ''A1'', always ''t3''),
      (RequestUsers (Some ''A1''), always ''t4'')]"
  have r: "fst (run Number_digits init ?reqs)
   = [Queued (new_command 1 ''CHECK'' ''t0''), Text (''C:1:CHECK'' @ [LF]), Text ''OK'',
      CommandList ''A1'' [], Queued (new_command 2 ''CHECK'' ''t4'')]" by code_simp
  have "length (issued ''A1'' ?reqs (fst (run Number_digits init ?reqs))) = 2"
    unfolding r by (simp add: issued_def or_empty_def new_command_def)
  then have "issued ''A1'' ?reqs (fst (run Number_digits init ?reqs)) = [1 ..< Suc 2]"
    using ids_count_up_from_one [of "''A1''" ?reqs Number_digits] by simp
  then show ?thesis using r by (simp add: upt_rec)
qed

text \<open>
  Claim C9 says that after every operation no command held in a queue has status
  \<open>done\<close>, the command that an acknowledgment marks done being removed within the
  same acknowledgment. The structured handler breaks this. Its body is parsed by
  \<open>express.json\<close> (line 68) as well, so \<open>CMD\<close> can be an object such as
  \<open>{"toString": null}\<close>: truthy, and impossible to convert to text. For the queued
  command 1 of \<open>A1\<close> such a request passes line 252, lines 260 to 262 mark the
  command done, the template of line 263 throws, line 266 is not reached and the
  request is answered with an error. The command stays in the queue with status
  \<open>done\<close>, as a later look at the queue shows, and the store is one that requests
  reach from the empty store.
\<close>

theorem done_command_left_in_queue:
  "get_or_empty (snd (queueCommand ''A1'' ''CHECK'' ''t0'' init)) ''A1'' = [new_command 1 ''CHECK'' ''t0'']
   \<and> fst (devicecmd_aspx Number_digits
        \<lparr>query_SN = Str ''A1'', body_SN = Undefined, ID = Str ''1'', Return = Str ''0'', CMD = Value True None None\<rparr>
        ''t1'' (snd (queueCommand ''A1'' ''CHECK'' ''t0'' init))) = ServerError
   \<and> get_or_empty (fst (snd (devicecmd_aspx Number_digits
        \<lparr>query_SN = Str ''A1'', body_SN = Undefined, ID = Str ''1'', Return = Str ''0'', CMD = Value True None None\<rparr>
        ''t1'' (snd (queueCommand ''A1'' ''CHECK'' ''t0'' init))))) ''A1''
      = [(new_command 1 ''CHECK'' ''t0'')\<lparr>status := Done, doneAt := Some ''t1'', deviceAck := Some ''OK''\<rparr>]
   \<and> fst (run Number_digits init
        [(QueueCommand (Some ''A1'') (Some ''CHECK''), always ''t0''),
         (DeviceCmdAspx \<lparr>query_SN = Str ''A1'', body_SN = Undefined, ID = Str ''1'', Return = Str ''0'',
            CMD = Value True None None\<rparr>, always ''t1''),
         (CommandsOf ''A1'', always ''t2'')])
      = [Queued (new_command 1 ''CHECK'' ''t0''), ServerError,
         CommandList ''A1''
           [(new_command 1 ''CHECK'' ''t0'')\<lparr>status := Done, doneAt := Some ''t1'', deviceAck := Some ''OK''\<rparr>]]
   \<and> \<not> list_all live (get_or_empty (snd (run Number_digits init
        [(QueueCommand (Some ''A1'') (Some ''CHECK''), always ''t0''),
         (DeviceCmdAspx \<lparr>query_SN = Str ''A1'', body_SN = Undefined, ID = Str ''1'', Return = Str ''0'',
            CMD = Value True None None\<rparr>, always ''t1'')])) ''A1'')"
  by code_simp



end
